theory Spec2Isabelle
  imports Main
begin

section \<open>Python string operations used by the integration\<close>

text \<open>
  Identifiers are Python \<^verbatim>\<open>str\<close> values; they are modelled as HOL strings of ASCII
  characters. \<^verbatim>\<open>str.lower()\<close> then maps the letters A to Z to a to z and leaves every
  other character as it is.
\<close>

definition lower_chr :: "char \<Rightarrow> char" where
  "lower_chr c =
     (case map_of (zip ''ABCDEFGHIJKLMNOPQRSTUVWXYZ'' ''abcdefghijklmnopqrstuvwxyz'') c of
        None \<Rightarrow> c
      | Some l \<Rightarrow> l)"

definition str_lower :: "string \<Rightarrow> string" where
  "str_lower s = map lower_chr s"

text \<open>\<^verbatim>\<open>s.replace(old, new)\<close> for one-character \<^verbatim>\<open>old\<close> and \<^verbatim>\<open>new\<close>.\<close>

definition str_replace :: "char \<Rightarrow> char \<Rightarrow> string \<Rightarrow> string" where
  "str_replace old new s = map (\<lambda>c. if c = old then new else c) s"

text \<open>
  \<^verbatim>\<open>s.split(sep)\<close> for a one-character separator: the pieces between the separators,
  empty pieces included; the result of splitting the empty string is one empty piece.
\<close>

fun str_split :: "char \<Rightarrow> string \<Rightarrow> string list" where
  "str_split sep [] = [[]]"
| "str_split sep (c # s) =
     (if c = sep then [] # str_split sep s
      else (case str_split sep s of
              [] \<Rightarrow> [[c]]
            | p # ps \<Rightarrow> (c # p) # ps))"

section \<open>Constants imported from \<^verbatim>\<open>.const\<close>\<close>

text \<open>
  \<^verbatim>\<open>from .const import DOMAIN, KEY_LATENCY, KEY_MOTD\<close>: the module is not part of the
  source file, so the three constants are a parameter of every function that reads them.
\<close>

record const_values =
  DOMAIN :: string
  KEY_LATENCY :: string
  KEY_MOTD :: string

text \<open>
  Modelled from the spec: the values of the constants of \<^verbatim>\<open>const.py\<close>, which is missing.
  The spec gives \<^verbatim>\<open>motd\<close> as the MOTD key, the source's comment gives \<^verbatim>\<open>latency\<close> as
  the new name of \<^verbatim>\<open>latency_time\<close>, and the domain is the name of the component.
\<close>

definition const_py :: const_values where
  "const_py = \<lparr>DOMAIN = ''minecraft_server'', KEY_LATENCY = ''latency'', KEY_MOTD = ''motd''\<rparr>"

section \<open>Records of the host\<close>

datatype error = AssertionError | IndexError

text \<open>A config entry; \<open>data\<close> is kept abstract.\<close>

record 'd config_entry =
  entry_id :: string
  unique_id :: "string option"
  version :: int
  data :: 'd

text \<open>
  A device entry. \<open>identifiers\<close> is a set of pairs in the source; the list gives the
  order in which the \<^verbatim>\<open>for\<close> loop visits its elements.
\<close>

record device_entry =
  device_id :: string
  device_config_entries :: "string set"
  identifiers :: "(string \<times> string) list"

record registry_entry =
  unique_id :: string
  config_entry_id :: string

text \<open>
  The part of \<^verbatim>\<open>hass\<close> the migration reads and writes: the persisted config entries by
  entry id, the device registry and the entity registry, both in iteration order.
\<close>

record 'd hass =
  config_entries :: "string \<rightharpoonup> 'd config_entry"
  device_registry :: "device_entry list"
  entity_registry :: "registry_entry list"

text \<open>Truthiness of a value of type \<^verbatim>\<open>str | None\<close>, as \<^verbatim>\<open>assert\<close> tests it.\<close>

definition truthy :: "string option \<Rightarrow> bool" where
  "truthy v = (case v of None \<Rightarrow> False | Some s \<Rightarrow> s \<noteq> [])"

section \<open>Collaborators of the host\<close>

text \<open>
  Modelled from the spec: \<^verbatim>\<open>hass.config_entries.async_update_entry\<close>, the config-entry
  store, which writes the entry's fields back.
\<close>

definition async_update_entry :: "'d hass \<Rightarrow> 'd config_entry \<Rightarrow> 'd hass" where
  "async_update_entry hass config_entry =
     hass\<lparr>config_entries := (config_entries hass)(entry_id config_entry \<mapsto> config_entry)\<rparr>"

text \<open>
  Modelled from the spec: \<^verbatim>\<open>dr.async_entries_for_config_entry\<close>, the sequence of the
  devices associated with a config entry.
\<close>

definition async_entries_for_config_entry :: "device_entry list \<Rightarrow> string \<Rightarrow> device_entry list" where
  "async_entries_for_config_entry registry cid =
     filter (\<lambda>device_entry. cid \<in> device_config_entries device_entry) registry"

text \<open>
  Modelled from the spec: \<^verbatim>\<open>device_registry.async_update_device\<close>, which gives the
  device of that id the new identifiers.
\<close>

definition async_update_device ::
  "device_entry list \<Rightarrow> string \<Rightarrow> (string \<times> string) list \<Rightarrow> device_entry list" where
  "async_update_device registry did new_identifiers =
     map (\<lambda>device_entry.
            if device_id device_entry = did
            then device_entry\<lparr>identifiers := new_identifiers\<rparr>
            else device_entry) registry"

text \<open>
  Modelled from the spec: the entity registry's update of one entity with the fields the
  callback returned; \<^verbatim>\<open>new_unique_id\<close> is the only field this integration returns.
\<close>

definition async_update_entity ::
  "registry_entry \<Rightarrow> (string \<times> string) list \<Rightarrow> registry_entry" where
  "async_update_entity entity_entry updates =
     (case map_of updates ''new_unique_id'' of
        None \<Rightarrow> entity_entry
      | Some new_unique_id \<Rightarrow> entity_entry\<lparr>registry_entry.unique_id := new_unique_id\<rparr>)"

text \<open>
  Modelled from the spec: \<^verbatim>\<open>er.async_migrate_entries\<close>, which applies the callback to
  every entity of the config entry, in order, and persists each result. An exception of
  the callback leaves the loop: the entities before it are updated, the others are not.
\<close>

fun migrate_entries_loop ::
  "string \<Rightarrow> (registry_entry \<Rightarrow> error + (string \<times> string) list) \<Rightarrow> registry_entry list
     \<Rightarrow> registry_entry list \<times> error option" where
  "migrate_entries_loop cid entry_callback [] = ([], None)"
| "migrate_entries_loop cid entry_callback (e # es) =
     (if config_entry_id e \<noteq> cid then
        (case migrate_entries_loop cid entry_callback es of (es', r) \<Rightarrow> (e # es', r))
      else
        (case entry_callback e of
           Inl err \<Rightarrow> (e # es, Some err)
         | Inr updates \<Rightarrow>
             (case migrate_entries_loop cid entry_callback es of
                (es', r) \<Rightarrow> (async_update_entity e updates # es', r))))"

definition async_migrate_entries ::
  "'d hass \<Rightarrow> string \<Rightarrow> (registry_entry \<Rightarrow> error + (string \<times> string) list)
     \<Rightarrow> 'd hass \<times> error option" where
  "async_migrate_entries hass cid entry_callback =
     (case migrate_entries_loop cid entry_callback (entity_registry hass) of
        (es', r) \<Rightarrow> (hass\<lparr>entity_registry := es'\<rparr>, r))"

section \<open>The integration\<close>

text \<open>
  \<^verbatim>\<open>_migrate_entity_unique_id\<close>. The result is the dictionary with the one key
  \<^verbatim>\<open>new_unique_id\<close>; the index 2 of a list with fewer than three pieces raises
  \<^verbatim>\<open>IndexError\<close>.
\<close>

definition migrate_entity_unique_id ::
  "const_values \<Rightarrow> 'a registry_entry_scheme \<Rightarrow> error + (string \<times> string) list" where
  "migrate_entity_unique_id K entity_entry =
     (let unique_id_pieces = str_split CHR ''-'' (registry_entry.unique_id entity_entry) in
      if length unique_id_pieces \<le> 2 then Inl IndexError
      else
        let entity_type = unique_id_pieces ! 2;
            new_entity_type = str_lower entity_type;
            new_entity_type = str_replace CHR '' '' CHR ''_'' new_entity_type;
            new_entity_type =
              (if new_entity_type = ''world_message'' then KEY_MOTD K else new_entity_type);
            new_entity_type =
              (if new_entity_type = ''latency_time'' then KEY_LATENCY K else new_entity_type);
            new_unique_id = config_entry_id entity_entry @ ''-'' @ new_entity_type
        in Inr [(''new_unique_id'', new_unique_id)])"

text \<open>
  \<^verbatim>\<open>_async_migrate_device_identifiers\<close>: the inner loop over the identifiers of one
  device returns the registry and the flag \<^verbatim>\<open>device_entry_found\<close>; the outer loop over
  the devices of the config entry stops when the flag is set.
\<close>

fun identifier_loop ::
  "const_values \<Rightarrow> 'd config_entry \<Rightarrow> string option \<Rightarrow> device_entry \<Rightarrow> (string \<times> string) list
     \<Rightarrow> device_entry list \<Rightarrow> device_entry list \<times> bool" where
  "identifier_loop K config_entry old_unique_id device_entry [] registry = (registry, False)"
| "identifier_loop K config_entry old_unique_id device_entry (identifier # rest) registry =
     (if Some (snd identifier) = old_unique_id then
        (let new_identifiers = [(DOMAIN K, entry_id config_entry)]
         in (async_update_device registry (device_id device_entry) new_identifiers, True))
      else identifier_loop K config_entry old_unique_id device_entry rest registry)"

fun device_entry_loop ::
  "const_values \<Rightarrow> 'd config_entry \<Rightarrow> string option \<Rightarrow> device_entry list
     \<Rightarrow> device_entry list \<Rightarrow> device_entry list" where
  "device_entry_loop K config_entry old_unique_id [] registry = registry"
| "device_entry_loop K config_entry old_unique_id (device_entry # rest) registry =
     (case identifier_loop K config_entry old_unique_id device_entry
             (identifiers device_entry) registry of
        (registry', device_entry_found) \<Rightarrow>
          if device_entry_found then registry'
          else device_entry_loop K config_entry old_unique_id rest registry')"

definition async_migrate_device_identifiers ::
  "const_values \<Rightarrow> 'd hass \<Rightarrow> 'd config_entry \<Rightarrow> string option \<Rightarrow> 'd hass" where
  "async_migrate_device_identifiers K hass config_entry old_unique_id =
     hass\<lparr>device_registry :=
       device_entry_loop K config_entry old_unique_id
         (async_entries_for_config_entry (device_registry hass) (entry_id config_entry))
         (device_registry hass)\<rparr>"

text \<open>
  \<^verbatim>\<open>async_migrate_entry\<close>. The config entry is an object the caller holds: the function
  returns the state of the host, the config entry as the function leaves it, and either
  the exception raised or the value returned.
\<close>

definition async_migrate_entry ::
  "const_values \<Rightarrow> 'd hass \<Rightarrow> 'd config_entry \<Rightarrow> 'd hass \<times> 'd config_entry \<times> (error + bool)" where
  "async_migrate_entry K hass config_entry =
     (if version config_entry = 1 then
        (let old_unique_id = config_entry.unique_id config_entry in
         if \<not> truthy old_unique_id then (hass, config_entry, Inl AssertionError)
         else
           let cid = entry_id config_entry;
               config_entry = config_entry\<lparr>config_entry.unique_id := None, version := 2\<rparr>;
               hass = async_update_entry hass config_entry;
               hass = async_migrate_device_identifiers K hass config_entry old_unique_id
           in (case async_migrate_entries hass cid (migrate_entity_unique_id K) of
                 (hass, Some err) \<Rightarrow> (hass, config_entry, Inl err)
               | (hass, None) \<Rightarrow> (hass, config_entry, Inr True)))
      else (hass, config_entry, Inr True))"

section \<open>Notions of the specification and example states\<close>

text \<open>
  Lines 134 to 143 of the source as a function of the entity type: the type token that the
  new unique id of an entity ends with.
\<close>

definition new_entity_type :: "const_values \<Rightarrow> string \<Rightarrow> string" where
  "new_entity_type K entity_type =
     (let t = str_lower entity_type;
          t = str_replace CHR '' '' CHR ''_'' t;
          t = (if t = ''world_message'' then KEY_MOTD K else t);
          t = (if t = ''latency_time'' then KEY_LATENCY K else t)
      in t)"

text \<open>
  A device matches when one of its identifiers has the old unique id as its second
  component.
\<close>

definition device_matches :: "string option \<Rightarrow> device_entry \<Rightarrow> bool" where
  "device_matches old_unique_id device_entry =
     list_ex (\<lambda>identifier. Some (snd identifier) = old_unique_id) (identifiers device_entry)"

text \<open>
  A version 1 config entry \<^verbatim>\<open>E1\<close> with the legacy unique id \<^verbatim>\<open>abc123\<close>, and a host with
  four devices (one of another config entry, one without a matching identifier and two
  that match) and four entities (three of \<^verbatim>\<open>E1\<close>, one of another config entry).
\<close>

definition example_entry :: "unit config_entry" where
  "example_entry =
     \<lparr>entry_id = ''E1'', config_entry.unique_id = Some ''abc123'', version = 1, data = ()\<rparr>"

definition example_devices :: "device_entry list" where
  "example_devices =
     [\<lparr>device_id = ''D0'', device_config_entries = {''E0''},
       identifiers = [(''minecraft_server'', ''abc123'')]\<rparr>,
      \<lparr>device_id = ''D1'', device_config_entries = {''E1''},
       identifiers = [(''minecraft_server'', ''other'')]\<rparr>,
      \<lparr>device_id = ''D2'', device_config_entries = {''E1''},
       identifiers = [(''mqtt'', ''m1''), (''minecraft_server'', ''abc123'')]\<rparr>,
      \<lparr>device_id = ''D3'', device_config_entries = {''E0'', ''E1''},
       identifiers = [(''minecraft_server'', ''abc123'')]\<rparr>]"

definition example_entities :: "registry_entry list" where
  "example_entities =
     [\<lparr>registry_entry.unique_id = ''abc123-25565-Protocol Version'', config_entry_id = ''E1''\<rparr>,
      \<lparr>registry_entry.unique_id = ''abc123-25565-World Message'', config_entry_id = ''E1''\<rparr>,
      \<lparr>registry_entry.unique_id = ''other'', config_entry_id = ''E0''\<rparr>,
      \<lparr>registry_entry.unique_id = ''abc123-25565-Latency Time'', config_entry_id = ''E1''\<rparr>]"

definition example_hass :: "unit hass" where
  "example_hass =
     \<lparr>config_entries = [''E1'' \<mapsto> example_entry], device_registry = example_devices,
      entity_registry = example_entities\<rparr>"

text \<open>
  A version 1 config entry whose legacy unique id is the empty string, with one device and
  one entity.
\<close>

definition empty_id_entry :: "unit config_entry" where
  "empty_id_entry =
     \<lparr>entry_id = ''E2'', config_entry.unique_id = Some [], version = 1, data = ()\<rparr>"

definition empty_id_hass :: "unit hass" where
  "empty_id_hass =
     \<lparr>config_entries = [''E2'' \<mapsto> empty_id_entry],
      device_registry =
        [\<lparr>device_id = ''D1'', device_config_entries = {''E2''},
          identifiers = [(''minecraft_server'', [])]\<rparr>],
      entity_registry =
        [\<lparr>registry_entry.unique_id = ''host-25565-Latency Time'',
          config_entry_id = ''E2''\<rparr>]\<rparr>"

section \<open>Auxiliary facts\<close>

lemma str_split_not_Nil: "str_split sep s \<noteq> []"
  by (induction s) (auto split: list.splits)

lemma identifier_loop_eq:
  "identifier_loop K ce old d ids registry =
     (if list_ex (\<lambda>identifier. Some (snd identifier) = old) ids
      then (async_update_device registry (device_id d) [(DOMAIN K, entry_id ce)], True)
      else (registry, False))"
  by (induction ids) simp_all

lemma device_entry_loop_eq:
  "device_entry_loop K ce old ds registry =
     (case find (device_matches old) ds of
        None \<Rightarrow> registry
      | Some d \<Rightarrow> async_update_device registry (device_id d) [(DOMAIN K, entry_id ce)])"
  by (induction ds) (simp_all add: identifier_loop_eq device_matches_def)

lemma find_filter_mem: "find P (filter Q xs) = Some d \<Longrightarrow> d \<in> set xs"
  by (induction xs) (auto split: if_splits)

lemma async_update_device_distinct:
  assumes "distinct (map device_id registry)" and "d \<in> set registry"
  shows "async_update_device registry (device_id d) new =
         map (\<lambda>x. if x = d then x\<lparr>identifiers := new\<rparr> else x) registry"
  unfolding async_update_device_def
proof (rule map_cong[OF refl])
  fix x assume "x \<in> set registry"
  with assms have "device_id x = device_id d \<longleftrightarrow> x = d"
    by (meson distinct_map inj_onD)
  then show "(if device_id x = device_id d then x\<lparr>identifiers := new\<rparr> else x) =
             (if x = d then x\<lparr>identifiers := new\<rparr> else x)" by simp
qed

lemma async_update_device_mem:
  "d' \<in> set (async_update_device registry did new) \<Longrightarrow>
     d' \<in> set registry \<or> identifiers d' = new"
  by (auto simp: async_update_device_def split: if_splits)

lemma device_entry_loop_mem:
  "d' \<in> set (device_entry_loop K ce old ds registry) \<Longrightarrow>
     d' \<in> set registry \<or> identifiers d' = [(DOMAIN K, entry_id ce)]"
  by (auto simp: device_entry_loop_eq dest: async_update_device_mem split: option.splits)

lemma migrate_entries_loop_None:
  "migrate_entries_loop cid cb es = (es', None) \<Longrightarrow>
     es' = map (\<lambda>e. if config_entry_id e = cid
                     then (case cb e of Inl err \<Rightarrow> e | Inr updates \<Rightarrow> async_update_entity e updates)
                     else e) es
     \<and> (\<forall>e \<in> set es. config_entry_id e = cid \<longrightarrow> (\<exists>updates. cb e = Inr updates))"
  by (induction es arbitrary: es') (auto split: if_splits sum.splits prod.splits)

lemma async_migrate_entries_frame:
  "async_migrate_entries hass cid cb = (hass', r) \<Longrightarrow>
     config_entries hass' = config_entries hass \<and> device_registry hass' = device_registry hass"
  by (auto simp: async_migrate_entries_def split: prod.splits)

lemma async_update_entity_new_unique_id:
  "async_update_entity e [(''new_unique_id'', v)] = e\<lparr>registry_entry.unique_id := v\<rparr>"
  by (simp add: async_update_entity_def)

lemma async_migrate_entry_steps:
  assumes "version ce = 1" and "truthy (config_entry.unique_id ce)"
    and "async_migrate_entry K hass ce = (hass', ce', res)"
  shows "ce' = ce\<lparr>config_entry.unique_id := None, version := 2\<rparr>
    \<and> (\<exists>r. async_migrate_entries
              (async_migrate_device_identifiers K (async_update_entry hass ce') ce'
                 (config_entry.unique_id ce))
              (entry_id ce) (migrate_entity_unique_id K) = (hass', r)
           \<and> res = (case r of None \<Rightarrow> Inr True | Some err \<Rightarrow> Inl err))"
  using assms
  by (auto simp: async_migrate_entry_def Let_def split: prod.splits option.splits)

lemma migrate_entity_unique_id_Inl:
  "migrate_entity_unique_id K e = Inl err \<Longrightarrow> err = IndexError"
  by (auto simp: migrate_entity_unique_id_def Let_def split: if_splits)

lemma migrate_entity_unique_id_Inr_eq:
  "migrate_entity_unique_id K e = Inr updates \<Longrightarrow>
     updates = [(''new_unique_id'', config_entry_id e @ ''-'' @
        new_entity_type K (str_split CHR ''-'' (registry_entry.unique_id e) ! 2))]"
  by (auto simp: migrate_entity_unique_id_def new_entity_type_def Let_def split: if_splits)

lemma migrate_entries_loop_Some:
  "migrate_entries_loop cid cb es = (es', Some err) \<Longrightarrow> \<exists>e \<in> set es. cb e = Inl err"
  by (induction es arbitrary: es') (auto split: if_splits sum.splits prod.splits)

lemma migrate_entries_loop_map:
  assumes "migrate_entries_loop cid (migrate_entity_unique_id K) es = (es', None)"
  shows "es' = map (\<lambda>e. if config_entry_id e = cid
                then e\<lparr>registry_entry.unique_id := cid @ ''-'' @
                       new_entity_type K (str_split CHR ''-'' (registry_entry.unique_id e) ! 2)\<rparr>
                else e) es"
proof -
  from migrate_entries_loop_None [OF assms]
  have m: "es' = map (\<lambda>e. if config_entry_id e = cid
                     then (case migrate_entity_unique_id K e of Inl err \<Rightarrow> e
                           | Inr updates \<Rightarrow> async_update_entity e updates)
                     else e) es"
    and ok: "\<forall>e \<in> set es. config_entry_id e = cid \<longrightarrow>
               (\<exists>updates. migrate_entity_unique_id K e = Inr updates)"
    by blast+
  show ?thesis unfolding m
  proof (rule map_cong [OF refl])
    fix e assume e: "e \<in> set es"
    show "(if config_entry_id e = cid
           then (case migrate_entity_unique_id K e of Inl err \<Rightarrow> e
                 | Inr updates \<Rightarrow> async_update_entity e updates)
           else e) =
          (if config_entry_id e = cid
           then e\<lparr>registry_entry.unique_id := cid @ ''-'' @
                  new_entity_type K (str_split CHR ''-'' (registry_entry.unique_id e) ! 2)\<rparr>
           else e)"
    proof (cases "config_entry_id e = cid")
      case True
      with ok e obtain updates where u: "migrate_entity_unique_id K e = Inr updates" by blast
      from migrate_entity_unique_id_Inr_eq [OF u] u True show ?thesis
        by (simp add: async_update_entity_new_unique_id)
    next
      case False
      then show ?thesis by simp
    qed
  qed
qed

lemma async_migrate_entry_v1:
  assumes "version ce = 1" and "truthy (config_entry.unique_id ce)"
  shows "async_migrate_entry K hass ce =
    (case migrate_entries_loop (entry_id ce) (migrate_entity_unique_id K) (entity_registry hass) of
       (es', r) \<Rightarrow>
         (hass\<lparr>config_entries := (config_entries hass)(entry_id ce \<mapsto>
                  ce\<lparr>config_entry.unique_id := None, version := 2\<rparr>),
               device_registry :=
                 device_entry_loop K (ce\<lparr>config_entry.unique_id := None, version := 2\<rparr>)
                   (config_entry.unique_id ce)
                   (async_entries_for_config_entry (device_registry hass) (entry_id ce))
                   (device_registry hass),
               entity_registry := es'\<rparr>,
          ce\<lparr>config_entry.unique_id := None, version := 2\<rparr>,
          case r of None \<Rightarrow> Inr True | Some err \<Rightarrow> Inl err))"
  using assms
  by (auto simp: async_migrate_entry_def Let_def async_migrate_entries_def
      async_migrate_device_identifiers_def async_update_entry_def
      split: prod.splits option.splits)

lemma async_migrate_entry_truthy:
  assumes "version ce = 1" and "async_migrate_entry K hass ce = (hass', ce', Inr True)"
  shows "truthy (config_entry.unique_id ce)"
  using assms by (auto simp: async_migrate_entry_def Let_def split: if_splits)

lemmas eval_defs =
  async_migrate_entry_def truthy_def async_update_entry_def
  async_migrate_device_identifiers_def async_entries_for_config_entry_def
  async_update_device_def async_migrate_entries_def migrate_entity_unique_id_def
  async_update_entity_def str_lower_def str_replace_def lower_chr_def Let_def
  device_matches_def const_py_def new_entity_type_def

section \<open>The entity unique id\<close>

text \<open>
  Claim C1. When the old unique id, split on \<^verbatim>\<open>-\<close>, has an element at index 2, the
  decoding function returns the new unique id \<^verbatim>\<open><config_entry_id>-<normalized_type>\<close>:
  the element at index 2 is lowercased, its spaces become underscores, and then
  \<^verbatim>\<open>world_message\<close> is renamed to the MOTD key and \<^verbatim>\<open>latency_time\<close> to the latency key;
  every other token passes through normalized. The MOTD key is not \<^verbatim>\<open>latency_time\<close>
  itself, which the second rename of the source would rename again.
\<close>

theorem migrate_entity_unique_id_new_unique_id:
  assumes "2 < length (str_split CHR ''-'' (registry_entry.unique_id e))"
    and "KEY_MOTD K \<noteq> ''latency_time''"
  shows "migrate_entity_unique_id K e =
    Inr [(''new_unique_id'', config_entry_id e @ ''-'' @
      (let normalized_type =
             str_replace CHR '' '' CHR ''_''
               (str_lower (str_split CHR ''-'' (registry_entry.unique_id e) ! 2))
       in if normalized_type = ''world_message'' then KEY_MOTD K
          else if normalized_type = ''latency_time'' then KEY_LATENCY K
          else normalized_type))]"
  using assms by (simp add: migrate_entity_unique_id_def Let_def)

theorem migrate_entity_unique_id_new_unique_id_witness:
  "2 < length (str_split CHR ''-'' ''host-srv-World Message'')
   \<and> KEY_MOTD const_py \<noteq> ''latency_time''
   \<and> migrate_entity_unique_id const_py
       \<lparr>registry_entry.unique_id = ''host-srv-World Message'', config_entry_id = ''E1''\<rparr>
     = Inr [(''new_unique_id'', ''E1-motd'')]"
  using migrate_entity_unique_id_new_unique_id
    [of "\<lparr>registry_entry.unique_id = ''host-srv-World Message'', config_entry_id = ''E1''\<rparr>"
        const_py]
  by (simp add: const_py_def str_lower_def str_replace_def lower_chr_def)

text \<open>
  Claim C7. On a legacy unique id with exactly three dash-separated segments the decoding
  function returns a new unique id and raises nothing, and its result is determined by
  the unique id and the config entry id of the entity record: two records that agree on
  both get the same result.
\<close>

theorem migrate_entity_unique_id_total:
  assumes "length (str_split CHR ''-'' (registry_entry.unique_id e)) = 3"
  shows "(\<exists>new_unique_id.
            migrate_entity_unique_id K e = Inr [(''new_unique_id'', new_unique_id)])
    \<and> (\<forall>e'. registry_entry.unique_id e' = registry_entry.unique_id e
           \<and> config_entry_id e' = config_entry_id e
         \<longrightarrow> migrate_entity_unique_id K e' = migrate_entity_unique_id K e)"
  using assms by (simp add: migrate_entity_unique_id_def Let_def)

theorem migrate_entity_unique_id_total_witness:
  "length (str_split CHR ''-'' ''aa:bb:cc-25565-Latency Time'') = 3
   \<and> (\<exists>new_unique_id.
        migrate_entity_unique_id const_py
          \<lparr>registry_entry.unique_id = ''aa:bb:cc-25565-Latency Time'', config_entry_id = ''E1''\<rparr>
        = Inr [(''new_unique_id'', new_unique_id)])"
proof -
  have three: "length (str_split CHR ''-''
      (registry_entry.unique_id
         \<lparr>registry_entry.unique_id = ''aa:bb:cc-25565-Latency Time'', config_entry_id = ''E1''\<rparr>))
      = 3"
    by simp
  from migrate_entity_unique_id_total [OF three, of const_py, THEN conjunct1] three
  show ?thesis by simp
qed

text \<open>
  Claim C8, as amended. On a legacy unique id with fewer than three dash-separated
  segments the decoding function raises \<^verbatim>\<open>IndexError\<close> at the index 2 and returns no new
  unique id.
\<close>

theorem migrate_entity_unique_id_IndexError:
  assumes "length (str_split CHR ''-'' (registry_entry.unique_id e)) < 3"
  shows "migrate_entity_unique_id K e = Inl IndexError"
  using assms by (simp add: migrate_entity_unique_id_def Let_def)

theorem migrate_entity_unique_id_IndexError_witness:
  "length (str_split CHR ''-'' ''Protocol Version'') < 3
   \<and> migrate_entity_unique_id const_py
       \<lparr>registry_entry.unique_id = ''Protocol Version'', config_entry_id = ''E1''\<rparr>
     = Inl IndexError"
  using migrate_entity_unique_id_IndexError
    [of "\<lparr>registry_entry.unique_id = ''Protocol Version'', config_entry_id = ''E1''\<rparr>" const_py]
  by simp

text \<open>
  Claim C8 as stated fails: the unique id \<^verbatim>\<open>abc123-Protocol Version\<close> has two segments, and
  the decoding function raises \<^verbatim>\<open>IndexError\<close> on it instead of returning a wrong result.
\<close>

theorem migrate_entity_unique_id_malformed_raises:
  "length (str_split CHR ''-'' ''abc123-Protocol Version'') = 2
   \<and> migrate_entity_unique_id const_py
       \<lparr>registry_entry.unique_id = ''abc123-Protocol Version'', config_entry_id = ''E1''\<rparr>
     = Inl IndexError"
  by (simp add: migrate_entity_unique_id_def)

section \<open>The migration of a config entry\<close>

text \<open>
  Claim C3. On a config entry whose version is not 1, in particular on one already at
  version 2, the migration returns \<^verbatim>\<open>True\<close> and changes nothing: the host's config
  entries, devices and entities and the config entry itself are as before.
\<close>

theorem async_migrate_entry_no_op:
  assumes "version config_entry \<noteq> 1"
  shows "async_migrate_entry K hass config_entry = (hass, config_entry, Inr True)"
  using assms by (simp add: async_migrate_entry_def)

theorem async_migrate_entry_no_op_witness:
  "version (example_entry\<lparr>config_entry.unique_id := None, version := 2\<rparr>) \<noteq> 1
   \<and> async_migrate_entry const_py example_hass
         (example_entry\<lparr>config_entry.unique_id := None, version := 2\<rparr>)
     = (example_hass, example_entry\<lparr>config_entry.unique_id := None, version := 2\<rparr>, Inr True)"
  using async_migrate_entry_no_op
    [of "example_entry\<lparr>config_entry.unique_id := None, version := 2\<rparr>" const_py example_hass]
  by simp

text \<open>
  Claim C4, as amended. On a version 1 config entry whose unique id is \<^verbatim>\<open>None\<close> the
  migration raises \<^verbatim>\<open>AssertionError\<close> before any update: the host and the config entry are
  unchanged. The assertion is not what the migration raises when the unique id is neither
  \<^verbatim>\<open>None\<close> nor the empty string.
\<close>

theorem async_migrate_entry_assertion:
  assumes "version config_entry = 1"
  shows "(config_entry.unique_id config_entry = None \<longrightarrow>
            async_migrate_entry K hass config_entry = (hass, config_entry, Inl AssertionError))
    \<and> (\<forall>u. config_entry.unique_id config_entry = Some u \<and> u \<noteq> [] \<longrightarrow>
            snd (snd (async_migrate_entry K hass config_entry)) \<noteq> Inl AssertionError)"
proof (intro conjI impI allI)
  assume "config_entry.unique_id config_entry = None"
  with assms
  show "async_migrate_entry K hass config_entry = (hass, config_entry, Inl AssertionError)"
    by (simp add: async_migrate_entry_def truthy_def)
next
  fix u assume "config_entry.unique_id config_entry = Some u \<and> u \<noteq> []"
  then have t: "truthy (config_entry.unique_id config_entry)" by (simp add: truthy_def)
  obtain es' r where l: "migrate_entries_loop (entry_id config_entry) (migrate_entity_unique_id K)
      (entity_registry hass) = (es', r)"
    by (cases "migrate_entries_loop (entry_id config_entry) (migrate_entity_unique_id K)
      (entity_registry hass)") auto
  have "r \<noteq> Some AssertionError"
  proof
    assume "r = Some AssertionError"
    with l have "migrate_entries_loop (entry_id config_entry) (migrate_entity_unique_id K)
        (entity_registry hass) = (es', Some AssertionError)" by simp
    from migrate_entries_loop_Some [OF this] obtain e :: registry_entry
      where "migrate_entity_unique_id K e = Inl AssertionError" by blast
    from migrate_entity_unique_id_Inl [OF this] show False by simp
  qed
  then show "snd (snd (async_migrate_entry K hass config_entry)) \<noteq> Inl AssertionError"
    by (auto simp: async_migrate_entry_v1 [OF assms t] l split: option.splits)
qed

theorem async_migrate_entry_assertion_witness:
  "version (example_entry\<lparr>config_entry.unique_id := None\<rparr>) = 1
   \<and> async_migrate_entry const_py example_hass (example_entry\<lparr>config_entry.unique_id := None\<rparr>)
     = (example_hass, example_entry\<lparr>config_entry.unique_id := None\<rparr>, Inl AssertionError)
   \<and> version example_entry = 1
   \<and> config_entry.unique_id example_entry = Some ''abc123''
   \<and> snd (snd (async_migrate_entry const_py example_hass example_entry)) \<noteq> Inl AssertionError"
proof -
  have v0: "version (example_entry\<lparr>config_entry.unique_id := None\<rparr>) = 1"
    and u0: "config_entry.unique_id (example_entry\<lparr>config_entry.unique_id := None\<rparr>) = None"
    and v: "version example_entry = 1"
    and u: "config_entry.unique_id example_entry = Some ''abc123'' \<and> ''abc123'' \<noteq> []"
    by (simp_all add: example_entry_def)
  from async_migrate_entry_assertion [OF v0, of const_py example_hass] u0
  have a: "async_migrate_entry const_py example_hass
             (example_entry\<lparr>config_entry.unique_id := None\<rparr>)
           = (example_hass, example_entry\<lparr>config_entry.unique_id := None\<rparr>, Inl AssertionError)"
    by blast
  from async_migrate_entry_assertion [OF v, of const_py example_hass] u
  have b: "snd (snd (async_migrate_entry const_py example_hass example_entry))
           \<noteq> Inl AssertionError"
    by blast
  from v0 a v u b show ?thesis by blast
qed

text \<open>
  Claim C4 as stated fails in its remark that the error branch is unreachable when the
  legacy unique id is not \<^verbatim>\<open>None\<close>: the unique id of this version 1 config entry is the
  empty string, which is not \<^verbatim>\<open>None\<close>, and the migration raises \<^verbatim>\<open>AssertionError\<close>.
\<close>

theorem async_migrate_entry_empty_id_asserts:
  "version empty_id_entry = 1
   \<and> config_entry.unique_id empty_id_entry = Some []
   \<and> config_entry.unique_id empty_id_entry \<noteq> None
   \<and> async_migrate_entry const_py empty_id_hass empty_id_entry
     = (empty_id_hass, empty_id_entry, Inl AssertionError)"
  by (simp add: async_migrate_entry_def truthy_def empty_id_entry_def)

text \<open>
  Claim C10. \<^verbatim>\<open>assert old_unique_id\<close> tests truthiness: on a version 1 config entry whose
  unique id is the empty string the migration raises \<^verbatim>\<open>AssertionError\<close> before any update,
  as it does for \<^verbatim>\<open>None\<close>.
\<close>

theorem async_migrate_entry_empty_unique_id:
  assumes "version config_entry = 1"
    and "config_entry.unique_id config_entry = Some []"
  shows "async_migrate_entry K hass config_entry = (hass, config_entry, Inl AssertionError)"
  using assms by (simp add: async_migrate_entry_def truthy_def)

theorem async_migrate_entry_empty_unique_id_witness:
  "version (example_entry\<lparr>config_entry.unique_id := Some []\<rparr>) = 1
   \<and> config_entry.unique_id (example_entry\<lparr>config_entry.unique_id := Some []\<rparr>) = Some []
   \<and> async_migrate_entry const_py example_hass
         (example_entry\<lparr>config_entry.unique_id := Some []\<rparr>)
     = (example_hass, example_entry\<lparr>config_entry.unique_id := Some []\<rparr>, Inl AssertionError)"
  using async_migrate_entry_empty_unique_id
    [of "example_entry\<lparr>config_entry.unique_id := Some []\<rparr>" const_py example_hass]
  by (simp add: example_entry_def)

text \<open>
  Claim C5. On a version 1 config entry that passes the assertion, the migration sets the
  unique id to \<^verbatim>\<open>None\<close> and the version to 2 and changes no other field of the config
  entry, the entry id and the data in particular; the store of the host holds the updated
  entry under its entry id. This holds whatever the later steps do.
\<close>

theorem async_migrate_entry_config_entry:
  assumes "version config_entry = 1"
    and "config_entry.unique_id config_entry = Some u" and "u \<noteq> []"
  shows "fst (snd (async_migrate_entry K hass config_entry))
      = config_entry\<lparr>config_entry.unique_id := None, version := 2\<rparr>
    \<and> config_entries (fst (async_migrate_entry K hass config_entry))
      = (config_entries hass)(entry_id config_entry \<mapsto>
           config_entry\<lparr>config_entry.unique_id := None, version := 2\<rparr>)
    \<and> entry_id (fst (snd (async_migrate_entry K hass config_entry))) = entry_id config_entry
    \<and> data (fst (snd (async_migrate_entry K hass config_entry))) = data config_entry"
proof -
  obtain hass' ce' res where r: "async_migrate_entry K hass config_entry = (hass', ce', res)"
    by (cases "async_migrate_entry K hass config_entry") auto
  from assms have t: "truthy (config_entry.unique_id config_entry)"
    by (simp add: truthy_def)
  from async_migrate_entry_steps [OF assms(1) t r]
  obtain r' where ce': "ce' = config_entry\<lparr>config_entry.unique_id := None, version := 2\<rparr>"
    and m: "async_migrate_entries
              (async_migrate_device_identifiers K (async_update_entry hass ce') ce'
                 (config_entry.unique_id config_entry))
              (entry_id config_entry) (migrate_entity_unique_id K) = (hass', r')"
    by blast
  from async_migrate_entries_frame [OF m]
  have "config_entries hass' = (config_entries hass)(entry_id config_entry \<mapsto> ce')"
    by (simp add: async_migrate_device_identifiers_def async_update_entry_def ce')
  with r ce' show ?thesis by simp
qed

theorem async_migrate_entry_config_entry_witness:
  "version example_entry = 1
   \<and> config_entry.unique_id example_entry = Some ''abc123''
   \<and> ''abc123'' \<noteq> []
   \<and> fst (snd (async_migrate_entry const_py example_hass example_entry))
     = \<lparr>entry_id = ''E1'', config_entry.unique_id = None, version = 2, data = ()\<rparr>
   \<and> config_entries (fst (async_migrate_entry const_py example_hass example_entry)) ''E1''
     = Some \<lparr>entry_id = ''E1'', config_entry.unique_id = None, version = 2, data = ()\<rparr>"
proof -
  have v: "version example_entry = 1"
    and u: "config_entry.unique_id example_entry = Some ''abc123''"
    and n: "''abc123'' \<noteq> []"
    by (simp_all add: example_entry_def)
  from async_migrate_entry_config_entry [OF v u n, of const_py example_hass] v u
  show ?thesis by (simp add: example_entry_def)
qed

section \<open>The device identifiers\<close>

text \<open>
  Claim C6. The device ids of the registry are distinct, as the keys of a dictionary are.
  Among the devices associated with the config entry, in order, the first one with an
  identifier whose second component is the old unique id gets the one identifier
  \<^verbatim>\<open>(DOMAIN, entry_id)\<close> in place of all its identifiers; every other device of the
  registry is unchanged, a later matching device too, and so is the registry when no
  device matches. Nothing but the device registry changes.
\<close>

theorem async_migrate_device_identifiers_first_match:
  assumes "distinct (map device_id (device_registry hass))"
  shows "async_migrate_device_identifiers K hass config_entry old_unique_id =
     hass\<lparr>device_registry :=
       (case find (device_matches old_unique_id)
               (async_entries_for_config_entry (device_registry hass) (entry_id config_entry)) of
          None \<Rightarrow> device_registry hass
        | Some d \<Rightarrow>
            map (\<lambda>x. if x = d
                      then x\<lparr>identifiers := [(DOMAIN K, entry_id config_entry)]\<rparr>
                      else x)
              (device_registry hass))\<rparr>"
proof (cases "find (device_matches old_unique_id)
               (async_entries_for_config_entry (device_registry hass) (entry_id config_entry))")
  case None
  then show ?thesis
    by (simp add: async_migrate_device_identifiers_def device_entry_loop_eq)
next
  case (Some d)
  then have "d \<in> set (device_registry hass)"
    unfolding async_entries_for_config_entry_def by (rule find_filter_mem)
  with assms Some show ?thesis
    by (simp add: async_migrate_device_identifiers_def device_entry_loop_eq
        async_update_device_distinct)
qed

theorem async_migrate_device_identifiers_first_match_witness:
  "distinct (map device_id (device_registry example_hass))
   \<and> device_registry
       (async_migrate_device_identifiers const_py example_hass example_entry (Some ''abc123''))
     = [\<lparr>device_id = ''D0'', device_config_entries = {''E0''},
         identifiers = [(''minecraft_server'', ''abc123'')]\<rparr>,
        \<lparr>device_id = ''D1'', device_config_entries = {''E1''},
         identifiers = [(''minecraft_server'', ''other'')]\<rparr>,
        \<lparr>device_id = ''D2'', device_config_entries = {''E1''},
         identifiers = [(''minecraft_server'', ''E1'')]\<rparr>,
        \<lparr>device_id = ''D3'', device_config_entries = {''E0'', ''E1''},
         identifiers = [(''minecraft_server'', ''abc123'')]\<rparr>]"
proof -
  have d: "distinct (map device_id (device_registry example_hass))"
    by (simp add: example_hass_def example_devices_def)
  from async_migrate_device_identifiers_first_match
    [OF d, of const_py example_entry "Some ''abc123''"] d
  show ?thesis
    by (simp add: example_hass_def example_devices_def example_entry_def
        async_entries_for_config_entry_def device_matches_def const_py_def)
qed

section \<open>The whole migration\<close>

text \<open>
  Claim C2. The end-to-end example: a config entry \<^verbatim>\<open>E1\<close> at version 1 with the unique id
  \<^verbatim>\<open>abc123\<close>, one device with the identifiers \<^verbatim>\<open>{(DOMAIN, "abc123")}\<close> and one entity with the
  unique id \<^verbatim>\<open>abc123-25565-Protocol Version\<close>. The migration returns \<^verbatim>\<open>True\<close>; the entry
  is at version 2 with the unique id \<^verbatim>\<open>None\<close>, the device has the identifiers
  \<^verbatim>\<open>{(DOMAIN, "E1")}\<close> and the entity the unique id \<^verbatim>\<open>E1-protocol_version\<close>.
\<close>

theorem async_migrate_entry_end_to_end:
  "async_migrate_entry K
     \<lparr>config_entries = entries,
      device_registry =
        [\<lparr>device_id = did, device_config_entries = {''E1''},
          identifiers = [(DOMAIN K, ''abc123'')]\<rparr>],
      entity_registry =
        [\<lparr>registry_entry.unique_id = ''abc123-25565-Protocol Version'',
          config_entry_id = ''E1''\<rparr>]\<rparr>
     \<lparr>entry_id = ''E1'', config_entry.unique_id = Some ''abc123'', version = 1, data = d\<rparr>
   = (\<lparr>config_entries = entries(''E1'' \<mapsto>
           \<lparr>entry_id = ''E1'', config_entry.unique_id = None, version = 2, data = d\<rparr>),
       device_registry =
         [\<lparr>device_id = did, device_config_entries = {''E1''},
           identifiers = [(DOMAIN K, ''E1'')]\<rparr>],
       entity_registry =
         [\<lparr>registry_entry.unique_id = ''E1-protocol_version'', config_entry_id = ''E1''\<rparr>]\<rparr>,
      \<lparr>entry_id = ''E1'', config_entry.unique_id = None, version = 2, data = d\<rparr>,
      Inr True)"
  by (simp add: eval_defs)

text \<open>
  Claim C9. After a migration from version 1 that returned \<^verbatim>\<open>True\<close>, every device record
  the migration wrote has the one identifier \<^verbatim>\<open>(DOMAIN, entry_id)\<close>, and every entity of the
  config entry has the unique id made of the entry id, a dash and the type token, which
  is computed from the element at index 2 of the old unique id alone; the other entities
  are unchanged. The legacy unique id of the config entry decides only which device is
  rewritten and enters no value that is written: with any other non-empty legacy unique
  id in its place the migration of the same host succeeds too and leaves the same config
  entry, the same store and the same entities, and every device record it wrote has the
  same one identifier.
\<close>

theorem async_migrate_entry_identifiers:
  assumes "version config_entry = 1"
    and "async_migrate_entry K hass config_entry = (hass', config_entry', Inr True)"
  shows "(\<forall>d' \<in> set (device_registry hass'). d' \<notin> set (device_registry hass) \<longrightarrow>
            identifiers d' = [(DOMAIN K, entry_id config_entry)])
    \<and> entity_registry hass' =
        map (\<lambda>e. if config_entry_id e = entry_id config_entry
                  then e\<lparr>registry_entry.unique_id := entry_id config_entry @ ''-'' @
                         new_entity_type K
                           (str_split CHR ''-'' (registry_entry.unique_id e) ! 2)\<rparr>
                  else e)
          (entity_registry hass)
    \<and> (\<forall>u. u \<noteq> [] \<longrightarrow>
          snd (snd (async_migrate_entry K hass
                      (config_entry\<lparr>config_entry.unique_id := Some u\<rparr>))) = Inr True
        \<and> fst (snd (async_migrate_entry K hass
                      (config_entry\<lparr>config_entry.unique_id := Some u\<rparr>))) = config_entry'
        \<and> config_entries (fst (async_migrate_entry K hass
                      (config_entry\<lparr>config_entry.unique_id := Some u\<rparr>))) = config_entries hass'
        \<and> entity_registry (fst (async_migrate_entry K hass
                      (config_entry\<lparr>config_entry.unique_id := Some u\<rparr>))) = entity_registry hass'
        \<and> (\<forall>d' \<in> set (device_registry (fst (async_migrate_entry K hass
                      (config_entry\<lparr>config_entry.unique_id := Some u\<rparr>)))).
              d' \<notin> set (device_registry hass) \<longrightarrow>
              identifiers d' = [(DOMAIN K, entry_id config_entry)]))"
proof -
  let ?ce' = "config_entry\<lparr>config_entry.unique_id := None, version := 2\<rparr>"
  let ?devs = "async_entries_for_config_entry (device_registry hass) (entry_id config_entry)"
  have t: "truthy (config_entry.unique_id config_entry)"
    using assms by (rule async_migrate_entry_truthy)
  obtain es' r where l: "migrate_entries_loop (entry_id config_entry)
      (migrate_entity_unique_id K) (entity_registry hass) = (es', r)"
    by (cases "migrate_entries_loop (entry_id config_entry) (migrate_entity_unique_id K)
      (entity_registry hass)") auto
  from assms(2) have rN: "r = None"
    by (auto simp: async_migrate_entry_v1 [OF assms(1) t] l split: option.splits)
  from assms(2) have ce': "config_entry' = ?ce'"
    and store: "config_entries hass' = (config_entries hass)(entry_id config_entry \<mapsto> ?ce')"
    and dev: "device_registry hass' =
        device_entry_loop K ?ce' (config_entry.unique_id config_entry) ?devs
          (device_registry hass)"
    and ent: "entity_registry hass' = es'"
    by (auto simp: async_migrate_entry_v1 [OF assms(1) t] l rN)
  have A: "\<forall>d' \<in> set (device_registry hass'). d' \<notin> set (device_registry hass) \<longrightarrow>
            identifiers d' = [(DOMAIN K, entry_id config_entry)]"
    using device_entry_loop_mem [of _ K ?ce'] by (auto simp: dev)
  have B: "entity_registry hass' =
        map (\<lambda>e. if config_entry_id e = entry_id config_entry
                  then e\<lparr>registry_entry.unique_id := entry_id config_entry @ ''-'' @
                         new_entity_type K
                           (str_split CHR ''-'' (registry_entry.unique_id e) ! 2)\<rparr>
                  else e)
          (entity_registry hass)"
    unfolding ent using l rN by (intro migrate_entries_loop_map) simp
  have C: "snd (snd (async_migrate_entry K hass c2)) = Inr True
        \<and> fst (snd (async_migrate_entry K hass c2)) = config_entry'
        \<and> config_entries (fst (async_migrate_entry K hass c2)) = config_entries hass'
        \<and> entity_registry (fst (async_migrate_entry K hass c2)) = entity_registry hass'
        \<and> (\<forall>d' \<in> set (device_registry (fst (async_migrate_entry K hass c2))).
              d' \<notin> set (device_registry hass) \<longrightarrow>
              identifiers d' = [(DOMAIN K, entry_id config_entry)])"
    if u: "u \<noteq> []" and c2: "c2 = config_entry\<lparr>config_entry.unique_id := Some u\<rparr>"
    for u c2
  proof -
    have v2: "version c2 = 1" and t2: "truthy (config_entry.unique_id c2)"
      and e2: "entry_id c2 = entry_id config_entry"
      and n2: "c2\<lparr>config_entry.unique_id := None, version := 2\<rparr> = ?ce'"
      using assms(1) u by (simp_all add: c2 truthy_def)
    have r2: "async_migrate_entry K hass c2 =
        (hass\<lparr>config_entries := (config_entries hass)(entry_id config_entry \<mapsto> ?ce'),
              device_registry :=
                device_entry_loop K ?ce' (config_entry.unique_id c2) ?devs
                  (device_registry hass),
              entity_registry := es'\<rparr>,
         ?ce', Inr True)"
      by (simp add: async_migrate_entry_v1 [OF v2 t2] e2 n2 l rN)
    show ?thesis
      using device_entry_loop_mem [of _ K ?ce' "config_entry.unique_id c2"]
      by (auto simp: r2 ce' store ent)
  qed
  from A B C show ?thesis by blast
qed

theorem async_migrate_entry_identifiers_witness:
  "version example_entry = 1
   \<and> snd (snd (async_migrate_entry const_py example_hass example_entry)) = Inr True
   \<and> identifiers (device_registry
        (fst (async_migrate_entry const_py example_hass example_entry)) ! 2)
     = [(''minecraft_server'', ''E1'')]
   \<and> map registry_entry.unique_id
       (entity_registry (fst (async_migrate_entry const_py example_hass example_entry)))
     = [''E1-protocol_version'', ''E1-motd'', ''other'', ''E1-latency'']
   \<and> ''other'' \<noteq> []
   \<and> snd (snd (async_migrate_entry const_py example_hass
        (example_entry\<lparr>config_entry.unique_id := Some ''other''\<rparr>))) = Inr True
   \<and> map registry_entry.unique_id
       (entity_registry (fst (async_migrate_entry const_py example_hass
          (example_entry\<lparr>config_entry.unique_id := Some ''other''\<rparr>))))
     = [''E1-protocol_version'', ''E1-motd'', ''other'', ''E1-latency'']"
proof -
  let ?R = "async_migrate_entry const_py example_hass example_entry"
  let ?R2 = "async_migrate_entry const_py example_hass
      (example_entry\<lparr>config_entry.unique_id := Some ''other''\<rparr>)"
  let ?d = "\<lparr>device_id = ''D2'', device_config_entries = {''E1''},
             identifiers = [(''minecraft_server'', ''E1'')]\<rparr>"
  have v: "version example_entry = 1"
    by (simp add: example_entry_def)
  have devs: "device_registry (fst ?R) = (device_registry example_hass)[2 := ?d]"
    by (simp add: eval_defs example_hass_def example_devices_def example_entities_def
        example_entry_def)
  have res: "snd (snd ?R) = Inr True"
    by (simp add: eval_defs example_hass_def example_devices_def example_entities_def
        example_entry_def)
  then have run: "?R = (fst ?R, fst (snd ?R), Inr True)"
    by (metis prod.collapse)
  note inst = async_migrate_entry_identifiers [OF v run]
  have new: "device_registry (fst ?R) ! 2 \<in> set (device_registry (fst ?R))"
    and old: "device_registry (fst ?R) ! 2 \<notin> set (device_registry example_hass)"
    unfolding devs by (simp_all add: example_hass_def example_devices_def)
  from inst new old
  have "identifiers (device_registry (fst ?R) ! 2)
      = [(DOMAIN const_py, entry_id example_entry)]"
    by blast
  then have d2: "identifiers (device_registry (fst ?R) ! 2) = [(''minecraft_server'', ''E1'')]"
    by (simp add: const_py_def example_entry_def)
  from inst have "entity_registry (fst ?R) =
        map (\<lambda>e. if config_entry_id e = entry_id example_entry
                  then e\<lparr>registry_entry.unique_id := entry_id example_entry @ ''-'' @
                         new_entity_type const_py
                           (str_split CHR ''-'' (registry_entry.unique_id e) ! 2)\<rparr>
                  else e)
          (entity_registry example_hass)"
    by blast
  then have ents: "map registry_entry.unique_id (entity_registry (fst ?R))
      = [''E1-protocol_version'', ''E1-motd'', ''other'', ''E1-latency'']"
    by (simp add: example_hass_def example_entities_def example_entry_def new_entity_type_def
        const_py_def str_lower_def str_replace_def lower_chr_def)
  have n: "''other'' \<noteq> []" by simp
  from inst n have res2: "snd (snd ?R2) = Inr True"
    and ents2: "entity_registry (fst ?R2) = entity_registry (fst ?R)"
    by blast+
  from v res d2 ents n res2 ents2 show ?thesis by simp
qed

end
